theory Spec2Isabelle
  imports Main "HOL-Library.Multiset" "HOL-Library.Word"
begin

section \<open>Strings\<close>

text \<open>
  Go strings are byte sequences; they are modelled as \<open>string\<close> (a list of 8-bit
  characters). \<open>strings.HasPrefix\<close> and \<open>strings.Contains\<close> belong to Go's standard
  library: \<open>HasPrefix s prefix\<close> holds when \<open>s\<close> starts with the bytes of \<open>prefix\<close>,
  \<open>Contains s substr\<close> when \<open>substr\<close> occurs in \<open>s\<close> at some byte offset
  (\<open>strings.Index(s, substr) >= 0\<close>). The empty string is a prefix and a substring of
  every string.
\<close>

fun HasPrefix :: "string \<Rightarrow> string \<Rightarrow> bool" where
  "HasPrefix s [] = True"
| "HasPrefix [] (p # ps) = False"
| "HasPrefix (c # cs) (p # ps) = (c = p \<and> HasPrefix cs ps)"

fun Contains :: "string \<Rightarrow> string \<Rightarrow> bool" where
  "Contains [] substr = (substr = [])"
| "Contains (c # cs) substr = (HasPrefix (c # cs) substr \<or> Contains cs substr)"

section \<open>The membership diff of package removenonorgmembers\<close>

text \<open>
  \<open>cloudresourcemanager.Binding\<close>: the role and the members of a binding. The slice
  \<open>[]*Binding\<close> is modelled as a list of bindings: the entries are the bindings of a
  fetched policy, none of them a nil pointer. A nil slice and an empty slice are both
  the empty list.
\<close>

record Binding =
  Role :: string
  Members :: "string list"

text \<open>
  \<^verbatim>\<open>
  func notWhitelisted(member string, domains []string) bool {
      for _, d := range domains {
          if strings.Contains(member, d) { return false }
      }
      return true
  }
  \<close>
\<close>

fun notWhitelisted :: "string \<Rightarrow> string list \<Rightarrow> bool" where
  "notWhitelisted member [] = True"
| "notWhitelisted member (d # domains) =
     (if Contains member d then False else notWhitelisted member domains)"

text \<open>
  \<^verbatim>\<open>
  func notFromOrg(member, prefix, content string) bool {
      return strings.HasPrefix(member, prefix) && !strings.Contains(member, content)
  }
  \<close>
\<close>

definition notFromOrg :: "string \<Rightarrow> string \<Rightarrow> string \<Rightarrow> bool" where
  "notFromOrg member prefix content =
     (HasPrefix member prefix \<and> \<not> Contains member content)"

text \<open>
  The two nested \<open>range\<close> loops of \<open>filterNonOrgMembers\<close>, each a recursion over the
  slice it ranges over; the accumulator is the named result \<open>nonOrgMembers\<close>, to which
  \<open>append\<close> adds at the end.
\<close>

fun membersLoop :: "string \<Rightarrow> string list \<Rightarrow> string list \<Rightarrow> string list \<Rightarrow> string list" where
  "membersLoop organizationDisplayName allowedDomains [] nonOrgMembers = nonOrgMembers"
| "membersLoop organizationDisplayName allowedDomains (m # ms) nonOrgMembers =
     membersLoop organizationDisplayName allowedDomains ms
       (if notFromOrg m ''user:'' organizationDisplayName \<and> notWhitelisted m allowedDomains
        then nonOrgMembers @ [m] else nonOrgMembers)"

fun bindingsLoop :: "string \<Rightarrow> string list \<Rightarrow> Binding list \<Rightarrow> string list \<Rightarrow> string list" where
  "bindingsLoop organizationDisplayName allowedDomains [] nonOrgMembers = nonOrgMembers"
| "bindingsLoop organizationDisplayName allowedDomains (b # bs) nonOrgMembers =
     bindingsLoop organizationDisplayName allowedDomains bs
       (membersLoop organizationDisplayName allowedDomains (Members b) nonOrgMembers)"

definition filterNonOrgMembers :: "string \<Rightarrow> Binding list \<Rightarrow> string list \<Rightarrow> string list" where
  "filterNonOrgMembers organizationDisplayName bindings allowedDomains =
     bindingsLoop organizationDisplayName allowedDomains bindings []"

text \<open>
  The three criteria of the spec's Membership Diff Engine, as one predicate on a member
  identifier: the \<open>user:\<close> prefix, not containing the organization's string, and
  containing no allow-listed substring.
\<close>

definition selected :: "string \<Rightarrow> string list \<Rightarrow> string \<Rightarrow> bool" where
  "selected org allow m =
     (HasPrefix m ''user:'' \<and> \<not> Contains m org \<and> list_all (\<lambda>d. \<not> Contains m d) allow)"

text \<open>All member occurrences of a policy, in binding order and then member order.\<close>

definition allMembers :: "Binding list \<Rightarrow> string list" where
  "allMembers bindings = concat (map Members bindings)"

text \<open>
  Modelled from the spec: the removal that \<open>RemoveMembersOrganization\<close> (package
  entities, not among the sources) applies to a policy: the members of the removal set
  are removed from every binding, role kept, a binding left without members retained.
\<close>

definition removeMembers :: "string list \<Rightarrow> Binding list \<Rightarrow> Binding list" where
  "removeMembers removal bindings =
     map (\<lambda>b. b\<lparr>Members := filter (\<lambda>m. m \<notin> set removal) (Members b)\<rparr>) bindings"

section \<open>Errors\<close>

text \<open>
  Go error values. \<open>ErrUnmarshal\<close> and \<open>ErrValueNotFound\<close> are the sentinel errors of
  package entities. \<open>External\<close> is an error produced by a collaborator (an API client),
  with its text. \<open>Errorf\<close> is \<open>fmt.Errorf\<close> with a constant format, \<open>ErrorfQ f e\<close> is
  \<open>fmt.Errorf\<close> whose format is \<open>f\<close> followed by \<open>%q\<close> applied to the error \<open>e\<close>.
  \<open>WithMessage cause msg\<close> is what \<open>errors.Wrap(cause, msg)\<close> of github.com/pkg/errors
  returns for a non-nil cause. A nil error is \<open>None\<close> of \<open>err option\<close>.
\<close>

datatype err =
    ErrUnmarshal
  | ErrValueNotFound
  | External string
  | Errorf string
  | ErrorfQ string err
  | WithMessage err string

definition Wrap :: "err \<Rightarrow> string \<Rightarrow> err" where
  "Wrap e message = WithMessage e message"

text \<open>\<open>errors.Wrapf(err, format, arg)\<close> with a format that ends in its only verb \<open>%s\<close>.\<close>

definition Wrapf :: "err \<Rightarrow> string \<Rightarrow> string \<Rightarrow> err" where
  "Wrapf e format arg = WithMessage e (format @ arg)"

section \<open>ReadFinding\<close>

type_synonym bytes = "8 word list"

text \<open>
  Modelled from the spec: the message types of the compiled protos (\<open>pb.IamScanner\<close>,
  not among the sources), with the two fields \<open>ReadFinding\<close> reads: a finding has a
  category and a resource-parent path. The nested message is a pointer, nil when the
  payload has none, and the generated getters are nil-safe: on a nil receiver they
  return the zero value.
\<close>

record Finding =
  Category :: string
  Parent :: string

record IamScanner =
  Finding :: "Finding option"

definition GetFinding :: "IamScanner \<Rightarrow> Finding option" where
  "GetFinding x = Finding x"

definition GetCategory :: "Finding option \<Rightarrow> string" where
  "GetCategory x = (case x of None \<Rightarrow> [] | Some f \<Rightarrow> Category f)"

definition GetParent :: "Finding option \<Rightarrow> string" where
  "GetParent x = (case x of None \<Rightarrow> [] | Some f \<Rightarrow> Parent f)"

record Required =
  OrganizationName :: string

section \<open>Execute\<close>

record Organization =
  Name :: string
  DisplayName :: string

record Policy =
  Bindings :: "Binding list"

text \<open>
  The \<open>Resource\<close> collaborator of package entities, as the three methods \<open>Execute\<close>
  calls. Each takes the context and its arguments, reads and changes the outside world
  \<open>'w\<close>, and returns a value or an error.
\<close>

record ('c, 'w) Resource =
  Organization :: "'c \<Rightarrow> string \<Rightarrow> 'w \<Rightarrow> (err + Organization) \<times> 'w"
  PolicyOrganization :: "'c \<Rightarrow> string \<Rightarrow> 'w \<Rightarrow> (err + Policy) \<times> 'w"
  RemoveMembersOrganization ::
    "'c \<Rightarrow> string \<Rightarrow> string list \<Rightarrow> Policy \<Rightarrow> 'w \<Rightarrow> (err + Policy) \<times> 'w"

record RemoveNonOrgMembersConfiguration =
  Enabled :: bool
  AllowDomains :: "string list"

record Configuration =
  RemoveNonOrgMembers :: RemoveNonOrgMembersConfiguration

record ('c, 'w) Entity =
  Configuration :: Configuration
  Resource :: "('c, 'w) Resource"

text \<open>
  What an invocation of \<open>Execute\<close> does besides returning: the collaborator calls it
  makes, in order and with their arguments, the lines it writes with package log, and
  the outside world as the collaborators leave it.
\<close>

datatype call =
    OrganizationCall string
  | PolicyOrganizationCall string
  | RemoveMembersOrganizationCall string "string list" Policy

record 'w run =
  world :: 'w
  calls :: "call list"
  logged :: "string list"

definition callOrganization ::
  "('c, 'w) Resource \<Rightarrow> 'c \<Rightarrow> string \<Rightarrow> 'w run \<Rightarrow> (err + Organization) \<times> 'w run" where
  "callOrganization r ctx name s =
     (case Organization r ctx name (world s) of
        (res, w) \<Rightarrow> (res, s\<lparr>world := w, calls := calls s @ [OrganizationCall name]\<rparr>))"

definition callPolicyOrganization ::
  "('c, 'w) Resource \<Rightarrow> 'c \<Rightarrow> string \<Rightarrow> 'w run \<Rightarrow> (err + Policy) \<times> 'w run" where
  "callPolicyOrganization r ctx name s =
     (case PolicyOrganization r ctx name (world s) of
        (res, w) \<Rightarrow> (res, s\<lparr>world := w, calls := calls s @ [PolicyOrganizationCall name]\<rparr>))"

definition callRemoveMembersOrganization ::
  "('c, 'w) Resource \<Rightarrow> 'c \<Rightarrow> string \<Rightarrow> string list \<Rightarrow> Policy \<Rightarrow> 'w run
     \<Rightarrow> (err + Policy) \<times> 'w run" where
  "callRemoveMembersOrganization r ctx name remove policy s =
     (case RemoveMembersOrganization r ctx name remove policy (world s) of
        (res, w) \<Rightarrow>
          (res, s\<lparr>world := w,
                  calls := calls s @ [RemoveMembersOrganizationCall name remove policy]\<rparr>))"

text \<open>
  The text of a \<open>[]string\<close> under the verb \<open>%s\<close> of package fmt: the elements
  separated by one space, in square brackets.
\<close>

fun joinSpace :: "string list \<Rightarrow> string" where
  "joinSpace [] = []"
| "joinSpace [x] = x"
| "joinSpace (x # y # ys) = x @ '' '' @ joinSpace (y # ys)"

definition formatStrings :: "string list \<Rightarrow> string" where
  "formatStrings xs = ''['' @ joinSpace xs @ '']''"

text \<open>A line written by \<open>log.Printf\<close> or \<open>log.Println\<close>: the message, without the
  logger's time stamp and final newline.\<close>

definition logLine :: "string \<Rightarrow> 'w run \<Rightarrow> 'w run" where
  "logLine message s = s\<lparr>logged := logged s @ [message]\<rparr>"

text \<open>
  \<open>Execute\<close>, branch by branch. \<open>required\<close> and \<open>ent\<close> are the values the two pointers
  point to. The result is the returned error (\<open>None\<close> for nil) and the run after it.
\<close>

definition Execute ::
  "'c \<Rightarrow> Required \<Rightarrow> ('c, 'w) Entity \<Rightarrow> 'w run \<Rightarrow> err option \<times> 'w run" where
  "Execute ctx required ent s =
     (let conf = Configuration ent in
      if Enabled (RemoveNonOrgMembers conf) then
        (let allowedDomains = AllowDomains (RemoveNonOrgMembers conf) in
         case callOrganization (Resource ent) ctx (OrganizationName required) s of
           (Inl e, s1) \<Rightarrow>
             (Some (Wrapf e ''failed to get organization: '' (OrganizationName required)), s1)
         | (Inr organization, s1) \<Rightarrow>
             (case callPolicyOrganization (Resource ent) ctx (Name organization) s1 of
                (Inl e, s2) \<Rightarrow> (Some (Wrap e ''failed to retrieve organization policies''), s2)
              | (Inr policy, s2) \<Rightarrow>
                  (let membersToRemove =
                         filterNonOrgMembers (DisplayName organization) (Bindings policy)
                           allowedDomains
                   in case callRemoveMembersOrganization (Resource ent) ctx (Name organization)
                             membersToRemove policy s2 of
                        (Inl e, s3) \<Rightarrow>
                          (Some (Wrap e ''failed to remove organization policies''), s3)
                      | (Inr _, s3) \<Rightarrow>
                          (None,
                           logLine (''removed members: '' @ formatStrings membersToRemove) s3))))
      else
        (None, logLine ''remove non-org members execution disabled: check settings.json.'' s))"

text \<open>
  The reading of "wrapped with the organization identifier as context": the error is
  the cause \<open>e\<close> wrapped with a message in which the identifier occurs.
\<close>

fun wrappedWithIdentifier :: "err \<Rightarrow> err \<Rightarrow> string \<Rightarrow> bool" where
  "wrappedWithIdentifier (WithMessage cause message) e ident =
     (cause = e \<and> Contains message ident)"
| "wrappedWithIdentifier other e ident = False"

section \<open>ReadFinding, with the state around it\<close>

text \<open>
  \<open>ReadFinding\<close>. The decoder \<open>json.Unmarshal\<close> into \<open>pb.IamScanner\<close> belongs to Go's
  standard library: it reads the bytes and writes only the value it is handed, here the
  local \<open>finding\<close>; it is the parameter \<open>unmarshal\<close> (\<open>Inl\<close> carries the text
  \<open>err.Error()\<close> of the decoding error, \<open>Inr\<close> the decoded message). The helper
  \<open>sha.OrganizationName\<close> is not among the sources; it is the parameter
  \<open>shaOrganizationName\<close>, and since nothing is known of what it touches it takes the
  outside world and returns it, possibly changed, with the name. \<open>ReadFinding\<close> is given
  the same run as \<open>Execute\<close> (world, collaborator calls, log lines) and returns it with
  its result.
\<close>

definition ReadFinding ::
  "(bytes \<Rightarrow> string + IamScanner) \<Rightarrow> (string \<Rightarrow> 'w \<Rightarrow> string \<times> 'w) \<Rightarrow> bytes \<Rightarrow> 'w run
     \<Rightarrow> (err + Required) \<times> 'w run" where
  "ReadFinding unmarshal shaOrganizationName b s =
     (case unmarshal b of
        Inl e \<Rightarrow> (Inl (Wrap ErrUnmarshal e), s)
      | Inr finding \<Rightarrow>
          (let r0 = \<lparr>OrganizationName = []\<rparr>;
               (r, s1) =
                 (if GetCategory (GetFinding finding) = ''NON_ORG_IAM_MEMBER''
                  then (case shaOrganizationName (GetParent (GetFinding finding)) (world s) of
                          (name, w) \<Rightarrow> (r0\<lparr>OrganizationName := name\<rparr>, s\<lparr>world := w\<rparr>))
                  else (r0, s))
           in if OrganizationName r = [] then (Inl ErrValueNotFound, s1) else (Inr r, s1)))"

section \<open>The entry point RevokeExternalGrantsFolders of package exec\<close>

definition authFile :: string where
  "authFile = ''credentials/auth.json''"

text \<open>
  \<open>os.Getenv\<close>: the value of the variable, the empty string when it is not set. The
  process environment is a map from names to values.
\<close>

definition Getenv :: "(string \<rightharpoonup> string) \<Rightarrow> string \<Rightarrow> string" where
  "Getenv env key = (case env key of None \<Rightarrow> [] | Some v \<Rightarrow> v)"

text \<open>
  \<open>strings.Split(s, ",")\<close>: the pieces of \<open>s\<close> between the occurrences of the one-byte
  separator; a string without the separator, also the empty one, is the only piece.
\<close>

fun Split :: "string \<Rightarrow> char \<Rightarrow> string list" where
  "Split [] sep = [[]]"
| "Split (c # cs) sep =
     (if c = sep then [] # Split cs sep
      else (case Split cs sep of [] \<Rightarrow> [[c]] | piece # pieces \<Rightarrow> (c # piece) # pieces))"

text \<open>
  The collaborators of the entry point: the client constructors of package clients, the
  logger's \<open>Info\<close> and \<open>Close\<close>, and \<open>cloudfunctions.RevokeExternalGrantsFolders\<close>, none
  of them among the sources, as functions on the outside world \<open>'w\<close>. The handles
  \<open>'lg\<close>, \<open>'crm\<close> and \<open>'stg\<close> are opaque; \<open>entities.NewLogger\<close> and
  \<open>entities.NewResource\<close> only wrap them, so the logger is its handle and the resource
  is the pair of its two clients.
\<close>

record ('c, 'm, 'lg, 'crm, 'stg, 'w) Clients =
  NewLogger :: "'c \<Rightarrow> string \<Rightarrow> 'w \<Rightarrow> (err + 'lg) \<times> 'w"
  Info :: "'lg \<Rightarrow> string \<Rightarrow> 'w \<Rightarrow> 'w"
  Close :: "'lg \<Rightarrow> 'w \<Rightarrow> 'w"
  NewCloudResourceManager :: "'c \<Rightarrow> string \<Rightarrow> 'w \<Rightarrow> (err + 'crm) \<times> 'w"
  NewStorage :: "'c \<Rightarrow> string \<Rightarrow> 'w \<Rightarrow> (err + 'stg) \<times> 'w"
  cloudfunctionsRevokeExternalGrantsFolders ::
    "'c \<Rightarrow> 'm \<Rightarrow> 'crm \<times> 'stg \<Rightarrow> string list \<Rightarrow> string list \<Rightarrow> 'lg \<Rightarrow> 'w \<Rightarrow> err option \<times> 'w"

datatype event =
    NewLoggerCall string
  | InfoCall string
  | CloseCall
  | NewCloudResourceManagerCall string
  | NewStorageCall string
  | CloudfunctionsCall "string list" "string list"

record 'w trace =
  outside :: 'w
  events :: "event list"

definition emit :: "event \<Rightarrow> 'w \<Rightarrow> 'w trace \<Rightarrow> 'w trace" where
  "emit ev w t = t\<lparr>outside := w, events := events t @ [ev]\<rparr>"

text \<open>
  The body of \<open>RevokeExternalGrantsFolders\<close> after the logger exists, up to its
  \<open>return\<close>; the deferred \<open>l.Close()\<close> runs after it, in \<open>RevokeExternalGrantsFolders\<close>
  below.
\<close>

definition revokeBody ::
  "('c, 'm, 'lg, 'crm, 'stg, 'w) Clients \<Rightarrow> (string \<rightharpoonup> string) \<Rightarrow> 'c \<Rightarrow> 'm \<Rightarrow> 'lg
     \<Rightarrow> 'w trace \<Rightarrow> err option \<times> 'w trace" where
  "revokeBody cl env ctx m l t0 =
     (let t1 = emit (InfoCall ''Initializing external members IAM removal'')
                 (Info cl l ''Initializing external members IAM removal'' (outside t0)) t0 in
      if Getenv env ''folder_ids'' = [] then
        (Some (Errorf ''folder_ids environment variable not found''), t1)
      else if Getenv env ''disallowed'' = [] then
        (Some (Errorf ''disallowed environment variable not found''), t1)
      else
        (case NewCloudResourceManager cl ctx authFile (outside t1) of
           (Inl e, w2) \<Rightarrow>
             (Some (ErrorfQ ''failed to initialize cloud resource manager client: '' e),
              emit (NewCloudResourceManagerCall authFile) w2 t1)
         | (Inr crm, w2) \<Rightarrow>
             (let t2 = emit (NewCloudResourceManagerCall authFile) w2 t1 in
              case NewStorage cl ctx authFile (outside t2) of
                (Inl e, w3) \<Rightarrow>
                  (Some (ErrorfQ ''failed to initialize storage client: '' e),
                   emit (NewStorageCall authFile) w3 t2)
              | (Inr stg, w3) \<Rightarrow>
                  (let t3 = emit (NewStorageCall authFile) w3 t2;
                       r = (crm, stg);
                       ids = Split (Getenv env ''folder_ids'') CHR '','';
                       d = Split (Getenv env ''disallowed'') CHR '',''
                   in case cloudfunctionsRevokeExternalGrantsFolders cl ctx m r ids d l
                             (outside t3) of
                        (res, w4) \<Rightarrow> (res, emit (CloudfunctionsCall ids d) w4 t3)))))"

definition RevokeExternalGrantsFolders ::
  "('c, 'm, 'lg, 'crm, 'stg, 'w) Clients \<Rightarrow> (string \<rightharpoonup> string) \<Rightarrow> 'c \<Rightarrow> 'm
     \<Rightarrow> 'w trace \<Rightarrow> err option \<times> 'w trace" where
  "RevokeExternalGrantsFolders cl env ctx m t =
     (case NewLogger cl ctx authFile (outside t) of
        (Inl e, w0) \<Rightarrow>
          (Some (ErrorfQ ''failed to initialize logger client: '' e),
           emit (NewLoggerCall authFile) w0 t)
      | (Inr lg, w0) \<Rightarrow>
          (case revokeBody cl env ctx m lg (emit (NewLoggerCall authFile) w0 t) of
             (res, t') \<Rightarrow> (res, emit CloseCall (Close cl lg (outside t')) t')))"

text \<open>The events that reach the resource manager, the storage or the policy.\<close>

fun beyondLogger :: "event \<Rightarrow> bool" where
  "beyondLogger (NewCloudResourceManagerCall f) = True"
| "beyondLogger (NewStorageCall f) = True"
| "beyondLogger (CloudfunctionsCall ids d) = True"
| "beyondLogger ev = False"

section \<open>Example inputs\<close>

text \<open>
  Concrete collaborators and inputs on which the theorems below are evaluated. The
  resource answers every organization lookup with the display name \<open>example.com\<close> and
  holds one binding; its policy fetch and its update fail with the given error, when one
  is given.
\<close>

definition examplePolicy :: Policy where
  "examplePolicy =
     \<lparr>Bindings = [\<lparr>Role = ''roles/owner'',
                   Members = [''user:bob@example.com'', ''user:eve@gmail.com'']\<rparr>]\<rparr>"

definition exampleResource :: "err option \<Rightarrow> err option \<Rightarrow> (unit, unit) Resource" where
  "exampleResource fetchFailure updateFailure =
     \<lparr>Organization = (\<lambda>ctx name w. (Inr \<lparr>Name = name, DisplayName = ''example.com''\<rparr>, w)),
      PolicyOrganization = (\<lambda>ctx name w.
        (case fetchFailure of Some e \<Rightarrow> Inl e | None \<Rightarrow> Inr examplePolicy, w)),
      RemoveMembersOrganization = (\<lambda>ctx name remove policy w.
        (case updateFailure of
           Some e \<Rightarrow> Inl e
         | None \<Rightarrow> Inr \<lparr>Bindings = removeMembers remove (Bindings policy)\<rparr>,
         w))\<rparr>"

definition exampleEntity ::
  "bool \<Rightarrow> string list \<Rightarrow> err option \<Rightarrow> err option \<Rightarrow> (unit, unit) Entity" where
  "exampleEntity enabled allow fetchFailure updateFailure =
     \<lparr>Configuration = \<lparr>RemoveNonOrgMembers = \<lparr>Enabled = enabled, AllowDomains = allow\<rparr>\<rparr>,
      Resource = exampleResource fetchFailure updateFailure\<rparr>"

definition exampleRequired :: Required where
  "exampleRequired = \<lparr>OrganizationName = ''organizations/123''\<rparr>"

definition freshRun :: "unit run" where
  "freshRun = \<lparr>world = (), calls = [], logged = []\<rparr>"

text \<open>
  Payloads: the bytes of a text (Go's \<open>[]byte(text)\<close>), and four JSON documents: an
  object without a finding, a finding of the supported category without a parent, a
  finding of another category, and a finding of the supported category under
  organization 123.
\<close>

definition bytesOf :: "string \<Rightarrow> bytes" where
  "bytesOf text = map (\<lambda>c. of_nat (of_char c)) text"

definition payloadNoFinding :: bytes where
  \<open>payloadNoFinding = bytesOf ''{}''\<close>

definition payloadNoParent :: bytes where
  \<open>payloadNoParent = bytesOf ''{"finding":{"category":"NON_ORG_IAM_MEMBER"}}''\<close>

definition payloadOtherCategory :: bytes where
  \<open>payloadOtherCategory = bytesOf
     ''{"finding":{"category":"PUBLIC_BUCKET_ACL","parent":"organizations/123/sources/456"}}''\<close>

definition payloadExternalMember :: bytes where
  \<open>payloadExternalMember = bytesOf
     ''{"finding":{"category":"NON_ORG_IAM_MEMBER","parent":"organizations/123/sources/456"}}''\<close>

text \<open>
  An extract of \<open>json.Unmarshal\<close> into \<open>pb.IamScanner\<close>, as a table: what it returns on
  the empty payload (a syntax error) and on the four documents above (the message with
  the fields the document gives, the others at their zero value). The theorems below
  evaluate it on these five payloads only; it refuses every other one.
\<close>

definition exampleUnmarshal :: "bytes \<Rightarrow> string + IamScanner" where
  "exampleUnmarshal b =
     (if b = [] then Inl ''unexpected end of JSON input''
      else if b = payloadNoFinding then Inr \<lparr>Finding = None\<rparr>
      else if b = payloadNoParent then
        Inr \<lparr>Finding = Some \<lparr>Category = ''NON_ORG_IAM_MEMBER'', Parent = []\<rparr>\<rparr>
      else if b = payloadOtherCategory then
        Inr \<lparr>Finding = Some \<lparr>Category = ''PUBLIC_BUCKET_ACL'',
                              Parent = ''organizations/123/sources/456''\<rparr>\<rparr>
      else if b = payloadExternalMember then
        Inr \<lparr>Finding = Some \<lparr>Category = ''NON_ORG_IAM_MEMBER'',
                              Parent = ''organizations/123/sources/456''\<rparr>\<rparr>
      else Inl ''payload outside the table'')"

text \<open>
  An extraction of the organization from a parent path, \<open>organizations/\<close> and the
  digits that follow, the empty string for any other path; it leaves the world, here a
  number, as it is. And a run that starts in a given world.
\<close>

definition exampleOrganizationName :: "string \<Rightarrow> nat \<Rightarrow> string \<times> nat" where
  "exampleOrganizationName parent w =
     (if HasPrefix parent ''organizations/''
      then ''organizations/'' @ takeWhile (\<lambda>c. c \<in> set ''0123456789'') (drop 14 parent)
      else [],
      w)"

definition runAt :: "nat \<Rightarrow> nat run" where
  "runAt w = \<lparr>world = w, calls = [], logged = []\<rparr>"

text \<open>Clients that all succeed, but for the logger when a failure is given.\<close>

definition exampleClients :: "err option \<Rightarrow> (unit, unit, unit, unit, unit, unit) Clients" where
  "exampleClients loggerFailure =
     \<lparr>NewLogger = (\<lambda>ctx file w.
        (case loggerFailure of Some e \<Rightarrow> Inl e | None \<Rightarrow> Inr (), w)),
      Info = (\<lambda>l message w. w),
      Close = (\<lambda>l w. w),
      NewCloudResourceManager = (\<lambda>ctx file w. (Inr (), w)),
      NewStorage = (\<lambda>ctx file w. (Inr (), w)),
      cloudfunctionsRevokeExternalGrantsFolders = (\<lambda>ctx m r ids d l w. (None, w))\<rparr>"

definition freshTrace :: "unit trace" where
  "freshTrace = \<lparr>outside = (), events = []\<rparr>"

text \<open>Two bindings, the same two with their members reordered, and those swapped.\<close>

definition exampleBindings :: "Binding list" where
  "exampleBindings =
     [\<lparr>Role = ''roles/owner'',
       Members = [''user:bob@example.com'', ''user:eve@gmail.com'']\<rparr>,
      \<lparr>Role = ''roles/viewer'',
       Members = [''user:mallory@evil.org'', ''user:carl@contractor.example.com'']\<rparr>]"

definition exampleBindingsMembersReordered :: "Binding list" where
  "exampleBindingsMembersReordered =
     [\<lparr>Role = ''roles/owner'',
       Members = [''user:eve@gmail.com'', ''user:bob@example.com'']\<rparr>,
      \<lparr>Role = ''roles/viewer'',
       Members = [''user:carl@contractor.example.com'', ''user:mallory@evil.org'']\<rparr>]"

definition exampleBindingsPermuted :: "Binding list" where
  "exampleBindingsPermuted =
     [\<lparr>Role = ''roles/viewer'',
       Members = [''user:carl@contractor.example.com'', ''user:mallory@evil.org'']\<rparr>,
      \<lparr>Role = ''roles/owner'',
       Members = [''user:eve@gmail.com'', ''user:bob@example.com'']\<rparr>]"

lemmas example_defs =
  examplePolicy_def exampleResource_def exampleEntity_def exampleRequired_def freshRun_def

lemmas Execute_defs =
  Execute_def callOrganization_def callPolicyOrganization_def
  callRemoveMembersOrganization_def logLine_def Wrap_def Wrapf_def Let_def

section \<open>Facts about the string functions\<close>

lemma HasPrefix_iff: "HasPrefix s p \<longleftrightarrow> (\<exists>suf. s = p @ suf)"
  by (induction s p rule: HasPrefix.induct) auto

lemma Contains_iff: "Contains s sub \<longleftrightarrow> (\<exists>pre suf. s = pre @ sub @ suf)"
proof (induction s)
  case Nil
  then show ?case by simp
next
  case (Cons c cs)
  show ?case
  proof
    assume "Contains (c # cs) sub"
    then consider "HasPrefix (c # cs) sub" | "Contains cs sub" by auto
    then show "\<exists>pre suf. c # cs = pre @ sub @ suf"
    proof cases
      case 1
      then obtain suf where "c # cs = sub @ suf" by (auto simp: HasPrefix_iff)
      then have "c # cs = [] @ sub @ suf" by simp
      then show ?thesis by blast
    next
      case 2
      then obtain pre suf where "cs = pre @ sub @ suf" using Cons.IH by blast
      then have "c # cs = (c # pre) @ sub @ suf" by simp
      then show ?thesis by blast
    qed
  next
    assume "\<exists>pre suf. c # cs = pre @ sub @ suf"
    then obtain pre suf where eq: "c # cs = pre @ sub @ suf" by blast
    show "Contains (c # cs) sub"
    proof (cases pre)
      case Nil
      with eq have "HasPrefix (c # cs) sub" by (auto simp: HasPrefix_iff)
      then show ?thesis by simp
    next
      case (Cons x pre')
      with eq have "cs = pre' @ sub @ suf" by simp
      then have "Contains cs sub" using Cons.IH by blast
      then show ?thesis by simp
    qed
  qed
qed

lemma Contains_empty: "Contains s []"
  by (cases s) simp_all

section \<open>The loops as a filter\<close>

lemma notWhitelisted_iff: "notWhitelisted m ds \<longleftrightarrow> list_all (\<lambda>d. \<not> Contains m d) ds"
  by (induction ds) simp_all

lemma selected_iff:
  "notFromOrg m ''user:'' org \<and> notWhitelisted m allow \<longleftrightarrow> selected org allow m"
  by (simp add: notFromOrg_def selected_def notWhitelisted_iff)

lemma membersLoop_eq:
  "membersLoop org allow ms acc = acc @ filter (selected org allow) ms"
proof (induction ms arbitrary: acc)
  case Nil
  show ?case by simp
next
  case (Cons m ms)
  show ?case
    using selected_iff [of m org allow] by (simp add: Cons.IH)
qed

lemma bindingsLoop_eq:
  "bindingsLoop org allow bs acc = acc @ filter (selected org allow) (allMembers bs)"
  by (induction bs arbitrary: acc) (simp_all add: membersLoop_eq allMembers_def)

lemma filterNonOrgMembers_eq:
  "filterNonOrgMembers org bs allow = filter (selected org allow) (allMembers bs)"
  by (simp add: filterNonOrgMembers_def bindingsLoop_eq)


lemma allMembers_removeMembers:
  "allMembers (removeMembers r bs) = filter (\<lambda>m. m \<notin> set r) (allMembers bs)"
  by (induction bs) (simp_all add: allMembers_def removeMembers_def)

lemma in_allMembers: "m \<in> set (allMembers bs) \<longleftrightarrow> (\<exists>b \<in> set bs. m \<in> set (Members b))"
  by (auto simp: allMembers_def)

lemma mset_allMembers: "mset (allMembers bs) = (\<Sum>b \<in># mset bs. mset (Members b))"
  by (induction bs) (simp_all add: allMembers_def)

lemma mset_allMembers_list_all2:
  "list_all2 (\<lambda>b c. mset (Members c) = mset (Members b)) bs cs \<Longrightarrow>
   mset (allMembers cs) = mset (allMembers bs)"
  by (induction bs cs rule: list_all2_induct) (simp_all add: allMembers_def)

section \<open>The membership diff: claims\<close>

text \<open>
  C1. For every organization display name, sequence of bindings and allow-list,
  \<open>filterNonOrgMembers\<close> selects a member identifier exactly when it occurs in some
  binding and all three criteria hold: it has the \<open>user:\<close> prefix, it does not contain
  the organization's string, and it contains no allow-listed substring.
\<close>

theorem filterNonOrgMembers_selects:
  "m \<in> set (filterNonOrgMembers org bs allow) \<longleftrightarrow>
     (\<exists>b \<in> set bs. m \<in> set (Members b)) \<and>
     HasPrefix m ''user:'' \<and> \<not> Contains m org \<and> (\<forall>d \<in> set allow. \<not> Contains m d)"
  by (auto simp: filterNonOrgMembers_eq in_allMembers selected_def list_all_iff)

theorem filterNonOrgMembers_selects_witness:
  "''user:eve@gmail.com'' \<in> set (filterNonOrgMembers ''example.com''
       [\<lparr>Role = ''roles/owner'', Members = [''user:bob@example.com'', ''user:eve@gmail.com'']\<rparr>]
       [''contractor.example.com''])
   \<and> ''user:bob@example.com'' \<notin> set (filterNonOrgMembers ''example.com''
       [\<lparr>Role = ''roles/owner'', Members = [''user:bob@example.com'', ''user:eve@gmail.com'']\<rparr>]
       [''contractor.example.com''])"
  using filterNonOrgMembers_selects [of "''user:eve@gmail.com''" "''example.com''"
       "[\<lparr>Role = ''roles/owner'', Members = [''user:bob@example.com'', ''user:eve@gmail.com'']\<rparr>]"
       "[''contractor.example.com'']"]
     filterNonOrgMembers_selects [of "''user:bob@example.com''" "''example.com''"
       "[\<lparr>Role = ''roles/owner'', Members = [''user:bob@example.com'', ''user:eve@gmail.com'']\<rparr>]"
       "[''contractor.example.com'']"]
  by simp

text \<open>
  C2. The worked example of the spec: with the organization string \<open>example.com\<close>, the
  allow-list \<open>[contractor.example.com]\<close> and one binding with the four members below,
  the removal set is exactly \<open>[user:eve@gmail.com]\<close>.
\<close>

theorem filterNonOrgMembers_example:
  "filterNonOrgMembers ''example.com''
     [\<lparr>Role = ''roles/owner'',
       Members = [''user:bob@example.com'', ''user:eve@gmail.com'',
                  ''user:carl@contractor.example.com'', ''group:team@example.com'']\<rparr>]
     [''contractor.example.com'']
   = [''user:eve@gmail.com'']"
  by (simp add: filterNonOrgMembers_def notFromOrg_def)

text \<open>
  C3. Idempotence of the diff: once the removal set that \<open>filterNonOrgMembers\<close>
  computes is removed from every binding's member list, recomputing it on the resulting
  bindings with the same organization and allow-list gives the empty removal set.
\<close>

theorem filterNonOrgMembers_idempotent:
  "filterNonOrgMembers org (removeMembers (filterNonOrgMembers org bs allow) bs) allow = []"
  by (simp add: filterNonOrgMembers_eq allMembers_removeMembers filter_empty_conv)

text \<open>
  C4. Permutation insensitivity: when \<open>bs'\<close> is a permutation of bindings \<open>cs\<close> that are
  the bindings \<open>bs\<close> with each member list permuted, \<open>filterNonOrgMembers\<close> returns the
  same set of members on \<open>bs'\<close> as on \<open>bs\<close>; even the number of times each member is
  returned is the same, only the order may differ.
\<close>

theorem filterNonOrgMembers_permutation:
  assumes "list_all2 (\<lambda>b c. Role c = Role b \<and> mset (Members c) = mset (Members b)) bs cs"
    and "mset bs' = mset cs"
  shows "set (filterNonOrgMembers org bs' allow) = set (filterNonOrgMembers org bs allow)
       \<and> mset (filterNonOrgMembers org bs' allow) = mset (filterNonOrgMembers org bs allow)"
proof -
  from assms(1) have "list_all2 (\<lambda>b c. mset (Members c) = mset (Members b)) bs cs"
    by (rule list_all2_mono) simp
  then have "mset (allMembers cs) = mset (allMembers bs)"
    by (rule mset_allMembers_list_all2)
  moreover from assms(2) have "mset (allMembers bs') = mset (allMembers cs)"
    by (simp add: mset_allMembers)
  ultimately have "mset (allMembers bs') = mset (allMembers bs)" by simp
  then have m: "mset (filterNonOrgMembers org bs' allow) = mset (filterNonOrgMembers org bs allow)"
    by (simp add: filterNonOrgMembers_eq)
  then have "set (filterNonOrgMembers org bs' allow) = set (filterNonOrgMembers org bs allow)"
    by (rule mset_eq_setD)
  with m show ?thesis by simp
qed

theorem filterNonOrgMembers_permutation_witness:
  "list_all2 (\<lambda>b c. Role c = Role b \<and> mset (Members c) = mset (Members b))
     exampleBindings exampleBindingsMembersReordered
   \<and> mset exampleBindingsPermuted = mset exampleBindingsMembersReordered
   \<and> filterNonOrgMembers ''example.com'' exampleBindings [''contractor.example.com'']
       = [''user:eve@gmail.com'', ''user:mallory@evil.org'']
   \<and> set (filterNonOrgMembers ''example.com'' exampleBindingsPermuted
            [''contractor.example.com''])
       = {''user:eve@gmail.com'', ''user:mallory@evil.org''}"
proof -
  have h1: "list_all2 (\<lambda>b c. Role c = Role b \<and> mset (Members c) = mset (Members b))
              exampleBindings exampleBindingsMembersReordered"
    by (simp add: exampleBindings_def exampleBindingsMembersReordered_def)
  have h2: "mset exampleBindingsPermuted = mset exampleBindingsMembersReordered"
    by (simp add: exampleBindingsPermuted_def exampleBindingsMembersReordered_def)
  have r: "filterNonOrgMembers ''example.com'' exampleBindings [''contractor.example.com'']
             = [''user:eve@gmail.com'', ''user:mallory@evil.org'']"
    by (simp add: exampleBindings_def filterNonOrgMembers_def notFromOrg_def)
  from filterNonOrgMembers_permutation [OF h1 h2, of "''example.com''"
         "[''contractor.example.com'']"]
  have "set (filterNonOrgMembers ''example.com'' exampleBindingsPermuted
               [''contractor.example.com''])
          = set (filterNonOrgMembers ''example.com'' exampleBindings
               [''contractor.example.com''])"
    by simp
  with h1 h2 r show ?thesis by simp
qed

text \<open>
  C5. Output order: \<open>filterNonOrgMembers\<close> returns the selected members binding by
  binding in the order of the bindings, and within a binding in the order of its member
  list; every qualifying occurrence is kept, so an identifier that qualifies in several
  bindings appears once for each.
\<close>

theorem filterNonOrgMembers_order:
  "filterNonOrgMembers org bs allow =
     concat (map (\<lambda>b. filter (\<lambda>m. notFromOrg m ''user:'' org \<and> notWhitelisted m allow)
                         (Members b)) bs)"
  by (simp add: filterNonOrgMembers_eq allMembers_def filter_concat comp_def selected_iff)

text \<open>
  C10. With the empty string as organization display name the removal set is empty for
  every sequence of bindings and every allow-list: the empty string is contained in
  every member identifier, so no member counts as external.
\<close>

theorem filterNonOrgMembers_empty_organization:
  "filterNonOrgMembers '''' bs allow = []"
  by (simp add: filterNonOrgMembers_eq selected_def Contains_empty)

section \<open>The entry point: the missing-parameter return\<close>

lemma revokeBody_missing:
  assumes "Getenv env ''folder_ids'' = [] \<or> Getenv env ''disallowed'' = []"
  shows "revokeBody cl env ctx m l t0 =
     (Some (Errorf (if Getenv env ''folder_ids'' = []
                    then ''folder_ids environment variable not found''
                    else ''disallowed environment variable not found'')),
      emit (InfoCall ''Initializing external members IAM removal'')
        (Info cl l ''Initializing external members IAM removal'' (outside t0)) t0)"
  using assms by (auto simp: revokeBody_def Let_def)

section \<open>Execute: claims\<close>

text \<open>
  C6. When the rule's enabled flag is false, \<open>Execute\<close> returns nil and makes no
  collaborator call: the recorded calls and the outside world are as before, whatever
  the context, the required value and the rest of the entity.
\<close>

theorem Execute_disabled:
  assumes "\<not> Enabled (RemoveNonOrgMembers (Configuration ent))"
  shows "fst (Execute ctx required ent s) = None
       \<and> calls (snd (Execute ctx required ent s)) = calls s
       \<and> world (snd (Execute ctx required ent s)) = world s"
  using assms by (simp add: Execute_def logLine_def)

theorem Execute_disabled_witness:
  "\<not> Enabled (RemoveNonOrgMembers (Configuration (exampleEntity False [] None None)))
   \<and> fst (Execute () exampleRequired (exampleEntity False [] None None) freshRun) = None
   \<and> calls (snd (Execute () exampleRequired (exampleEntity False [] None None) freshRun)) = []"
  using Execute_disabled [of "exampleEntity False [] None None" "()" exampleRequired freshRun]
  by (simp add: example_defs)

text \<open>
  C7, as stated, fails on \<open>Execute\<close>: an enabled rule whose allow-list is absent (the
  empty list) is no configuration error. \<open>Execute\<close> returns nil after calling all three
  collaborators, and removes the one external member.
\<close>

theorem Execute_enabled_without_allow_list:
  "fst (Execute () exampleRequired (exampleEntity True [] None None) freshRun) = None
   \<and> calls (snd (Execute () exampleRequired (exampleEntity True [] None None) freshRun)) =
       [OrganizationCall ''organizations/123'',
        PolicyOrganizationCall ''organizations/123'',
        RemoveMembersOrganizationCall ''organizations/123'' [''user:eve@gmail.com'']
          examplePolicy]"
  by (simp add: example_defs Execute_defs filterNonOrgMembers_def notFromOrg_def)

text \<open>
  C7, amended. The check of the required parameters is in the entry point
  \<open>RevokeExternalGrantsFolders\<close>: when the variable \<open>folder_ids\<close> or \<open>disallowed\<close> is
  unset or empty, the invocation fails, and no resource-manager client, no storage
  client and no call of \<open>cloudfunctions.RevokeExternalGrantsFolders\<close> is made. When the
  logger client was created, the error is the one naming the missing variable
  (\<open>folder_ids\<close> first), and all the invocation does is create the logger, write one line
  to it and close it.
\<close>

theorem RevokeExternalGrantsFolders_missing_parameter:
  assumes "Getenv env ''folder_ids'' = [] \<or> Getenv env ''disallowed'' = []"
  shows "fst (RevokeExternalGrantsFolders cl env ctx m t) \<noteq> None
       \<and> filter beyondLogger (events (snd (RevokeExternalGrantsFolders cl env ctx m t)))
           = filter beyondLogger (events t)
       \<and> (NewLogger cl ctx authFile (outside t) = (Inr lg, w) \<longrightarrow>
            fst (RevokeExternalGrantsFolders cl env ctx m t) =
              Some (Errorf (if Getenv env ''folder_ids'' = []
                            then ''folder_ids environment variable not found''
                            else ''disallowed environment variable not found''))
          \<and> events (snd (RevokeExternalGrantsFolders cl env ctx m t)) =
              events t @ [NewLoggerCall authFile,
                          InfoCall ''Initializing external members IAM removal'',
                          CloseCall])"
proof (cases "NewLogger cl ctx authFile (outside t)")
  case (Pair res w0)
  show ?thesis
  proof (cases res)
    case (Inl e)
    with Pair show ?thesis
      by (simp add: RevokeExternalGrantsFolders_def emit_def)
  next
    case (Inr lg0)
    with Pair show ?thesis
      using revokeBody_missing [OF assms, of cl ctx m lg0 "emit (NewLoggerCall authFile) w0 t"]
      by (auto simp: RevokeExternalGrantsFolders_def emit_def)
  qed
qed

theorem RevokeExternalGrantsFolders_missing_parameter_witness:
  "Getenv [''folder_ids'' \<mapsto> ''12345''] ''disallowed'' = []
   \<and> RevokeExternalGrantsFolders (exampleClients None) [''folder_ids'' \<mapsto> ''12345''] () ()
        freshTrace =
       (Some (Errorf ''disallowed environment variable not found''),
        \<lparr>outside = (),
         events = [NewLoggerCall authFile,
                   InfoCall ''Initializing external members IAM removal'', CloseCall]\<rparr>)
   \<and> fst (RevokeExternalGrantsFolders (exampleClients (Some (External ''no credentials'')))
        [''folder_ids'' \<mapsto> ''12345''] () () freshTrace) \<noteq> None"
  using RevokeExternalGrantsFolders_missing_parameter
          [of "[''folder_ids'' \<mapsto> ''12345'']" "exampleClients None" "()" "()" freshTrace "()" "()"]
        RevokeExternalGrantsFolders_missing_parameter
          [of "[''folder_ids'' \<mapsto> ''12345'']" "exampleClients (Some (External ''no credentials''))"
              "()" "()" freshTrace "()" "()"]
  by (simp add: Getenv_def exampleClients_def freshTrace_def prod_eq_iff)

text \<open>
  C8, as stated, fails: the error of a failed policy fetch comes back wrapped with the
  fixed message \<open>failed to retrieve organization policies\<close>, in which the organization
  identifier \<open>organizations/123\<close> does not occur.
\<close>

theorem Execute_policy_fetch_error_message:
  "fst (Execute () exampleRequired
          (exampleEntity True [] (Some (External ''boom'')) None) freshRun)
     = Some (WithMessage (External ''boom'') ''failed to retrieve organization policies'')
   \<and> \<not> wrappedWithIdentifier
         (WithMessage (External ''boom'') ''failed to retrieve organization policies'')
         (External ''boom'') ''organizations/123''"
  by (simp add: example_defs Execute_defs)

text \<open>
  C8, amended. In \<open>Execute\<close> with the rule enabled and the organization found: when
  \<open>PolicyOrganization\<close> returns an error, \<open>Execute\<close> returns it wrapped with the message
  \<open>failed to retrieve organization policies\<close> and has made the two calls up to the
  failing one; when \<open>RemoveMembersOrganization\<close> returns an error, \<open>Execute\<close> returns it
  wrapped with the message \<open>failed to remove organization policies\<close> and has made the
  three calls. In both cases nothing follows the failing call: no further call, no log
  line, the world as that call left it.
\<close>

theorem Execute_policy_errors:
  assumes "Enabled (RemoveNonOrgMembers (Configuration ent))"
    and "Organization (Resource ent) ctx (OrganizationName required) (world s)
           = (Inr organization, w1)"
  shows "(PolicyOrganization (Resource ent) ctx (Name organization) w1 = (Inl e, w2) \<longrightarrow>
            Execute ctx required ent s =
              (Some (WithMessage e ''failed to retrieve organization policies''),
               s\<lparr>world := w2,
                 calls := calls s @ [OrganizationCall (OrganizationName required),
                                     PolicyOrganizationCall (Name organization)]\<rparr>))
       \<and> (PolicyOrganization (Resource ent) ctx (Name organization) w1 = (Inr policy, w2) \<and>
          RemoveMembersOrganization (Resource ent) ctx (Name organization)
              (filterNonOrgMembers (DisplayName organization) (Bindings policy)
                 (AllowDomains (RemoveNonOrgMembers (Configuration ent))))
              policy w2 = (Inl e', w3) \<longrightarrow>
            Execute ctx required ent s =
              (Some (WithMessage e' ''failed to remove organization policies''),
               s\<lparr>world := w3,
                 calls := calls s @
                   [OrganizationCall (OrganizationName required),
                    PolicyOrganizationCall (Name organization),
                    RemoveMembersOrganizationCall (Name organization)
                      (filterNonOrgMembers (DisplayName organization) (Bindings policy)
                         (AllowDomains (RemoveNonOrgMembers (Configuration ent))))
                      policy]\<rparr>))"
  using assms by (simp add: Execute_defs)

theorem Execute_policy_errors_witness:
  "Execute () exampleRequired (exampleEntity True [] (Some (External ''boom'')) None) freshRun =
     (Some (WithMessage (External ''boom'') ''failed to retrieve organization policies''),
      \<lparr>world = (),
       calls = [OrganizationCall ''organizations/123'',
                PolicyOrganizationCall ''organizations/123''],
       logged = []\<rparr>)
   \<and> Execute () exampleRequired (exampleEntity True [] None (Some (External ''denied''))) freshRun =
     (Some (WithMessage (External ''denied'') ''failed to remove organization policies''),
      \<lparr>world = (),
       calls = [OrganizationCall ''organizations/123'',
                PolicyOrganizationCall ''organizations/123'',
                RemoveMembersOrganizationCall ''organizations/123'' [''user:eve@gmail.com'']
                  examplePolicy],
       logged = []\<rparr>)"
  using Execute_policy_errors [of "exampleEntity True [] (Some (External ''boom'')) None" "()"
          exampleRequired freshRun "\<lparr>Name = ''organizations/123'', DisplayName = ''example.com''\<rparr>"
          "()" "External ''boom''" "()" examplePolicy "External ''denied''" "()"]
        Execute_policy_errors [of "exampleEntity True [] None (Some (External ''denied''))" "()"
          exampleRequired freshRun "\<lparr>Name = ''organizations/123'', DisplayName = ''example.com''\<rparr>"
          "()" "External ''boom''" "()" examplePolicy "External ''denied''" "()"]
  by (simp add: example_defs filterNonOrgMembers_def notFromOrg_def)

section \<open>ReadFinding: claims\<close>

lemma exampleUnmarshal_table:
  "exampleUnmarshal [] = Inl ''unexpected end of JSON input''"
  "exampleUnmarshal payloadNoFinding = Inr \<lparr>Finding = None\<rparr>"
  "exampleUnmarshal payloadNoParent =
     Inr \<lparr>Finding = Some \<lparr>Category = ''NON_ORG_IAM_MEMBER'', Parent = []\<rparr>\<rparr>"
  "exampleUnmarshal payloadOtherCategory =
     Inr \<lparr>Finding = Some \<lparr>Category = ''PUBLIC_BUCKET_ACL'',
                           Parent = ''organizations/123/sources/456''\<rparr>\<rparr>"
  "exampleUnmarshal payloadExternalMember =
     Inr \<lparr>Finding = Some \<lparr>Category = ''NON_ORG_IAM_MEMBER'',
                           Parent = ''organizations/123/sources/456''\<rparr>\<rparr>"
  by (simp_all add: exampleUnmarshal_def payloadNoFinding_def payloadNoParent_def
        payloadOtherCategory_def payloadExternalMember_def bytesOf_def)

lemma exampleOrganizationName_values:
  "exampleOrganizationName [] w = ([], w)"
  "exampleOrganizationName ''organizations/123/sources/456'' w = (''organizations/123'', w)"
  by (simp_all add: exampleOrganizationName_def)

lemma exampleOrganizationName_pure:
  "\<forall>p w. snd (exampleOrganizationName p w) = w"
  "\<forall>p w w'. fst (exampleOrganizationName p w) = fst (exampleOrganizationName p w')"
  by (simp_all add: exampleOrganizationName_def)

text \<open>
  C9. \<open>ReadFinding\<close> returns \<open>ErrUnmarshal\<close>, wrapped with the decoder's message, for
  every payload the decoder rejects, and \<open>ErrValueNotFound\<close> for every payload that
  decodes to a message whose category is not the supported one or whose extracted
  organization name is empty. It has no side effect of its own: it makes no collaborator
  call and writes no log line, it leaves the world alone wherever it returns without
  asking \<open>sha.OrganizationName\<close>, and everywhere when that helper leaves the world
  alone. It is a function of the payload: when the helper's answer does not depend on
  the world, neither does the result of \<open>ReadFinding\<close>.
\<close>

theorem ReadFinding_errors_and_purity:
  "(unmarshal b = Inl e \<longrightarrow>
      ReadFinding unmarshal shaOrganizationName b s = (Inl (WithMessage ErrUnmarshal e), s))
   \<and> (unmarshal b = Inr finding \<and>
       GetCategory (GetFinding finding) \<noteq> ''NON_ORG_IAM_MEMBER'' \<longrightarrow>
      ReadFinding unmarshal shaOrganizationName b s = (Inl ErrValueNotFound, s))
   \<and> (unmarshal b = Inr finding \<and>
       fst (shaOrganizationName (GetParent (GetFinding finding)) (world s)) = [] \<longrightarrow>
      fst (ReadFinding unmarshal shaOrganizationName b s) = Inl ErrValueNotFound)
   \<and> calls (snd (ReadFinding unmarshal shaOrganizationName b s)) = calls s
   \<and> logged (snd (ReadFinding unmarshal shaOrganizationName b s)) = logged s
   \<and> ((\<forall>p w. snd (shaOrganizationName p w) = w) \<longrightarrow>
        snd (ReadFinding unmarshal shaOrganizationName b s) = s)
   \<and> ((\<forall>p w w'. fst (shaOrganizationName p w) = fst (shaOrganizationName p w')) \<longrightarrow>
        fst (ReadFinding unmarshal shaOrganizationName b s)
          = fst (ReadFinding unmarshal shaOrganizationName b s'))"
proof -
  have 1: "unmarshal b = Inl e \<longrightarrow>
      ReadFinding unmarshal shaOrganizationName b s = (Inl (WithMessage ErrUnmarshal e), s)"
    by (simp add: ReadFinding_def Wrap_def)
  have 2: "unmarshal b = Inr finding \<and>
       GetCategory (GetFinding finding) \<noteq> ''NON_ORG_IAM_MEMBER'' \<longrightarrow>
      ReadFinding unmarshal shaOrganizationName b s = (Inl ErrValueNotFound, s)"
    by (simp add: ReadFinding_def Let_def)
  have 3: "unmarshal b = Inr finding \<and>
       fst (shaOrganizationName (GetParent (GetFinding finding)) (world s)) = [] \<longrightarrow>
      fst (ReadFinding unmarshal shaOrganizationName b s) = Inl ErrValueNotFound"
    by (auto simp: ReadFinding_def Let_def split: prod.splits)
  have 4: "calls (snd (ReadFinding unmarshal shaOrganizationName b s)) = calls s"
    by (auto simp: ReadFinding_def Let_def split: sum.splits prod.splits)
  have 5: "logged (snd (ReadFinding unmarshal shaOrganizationName b s)) = logged s"
    by (auto simp: ReadFinding_def Let_def split: sum.splits prod.splits)
  have 6: "(\<forall>p w. snd (shaOrganizationName p w) = w) \<longrightarrow>
        snd (ReadFinding unmarshal shaOrganizationName b s) = s"
  proof
    assume h: "\<forall>p w. snd (shaOrganizationName p w) = w"
    have "\<And>p w n v. shaOrganizationName p w = (n, v) \<Longrightarrow> v = w"
      using h by (metis snd_conv)
    then show "snd (ReadFinding unmarshal shaOrganizationName b s) = s"
      by (auto simp: ReadFinding_def Let_def split: sum.splits prod.splits)
  qed
  have 7: "(\<forall>p w w'. fst (shaOrganizationName p w) = fst (shaOrganizationName p w')) \<longrightarrow>
        fst (ReadFinding unmarshal shaOrganizationName b s)
          = fst (ReadFinding unmarshal shaOrganizationName b s')"
  proof
    assume h: "\<forall>p w w'. fst (shaOrganizationName p w) = fst (shaOrganizationName p w')"
    have "\<And>p w w' n v n' v'. shaOrganizationName p w = (n, v) \<Longrightarrow>
            shaOrganizationName p w' = (n', v') \<Longrightarrow> n = n'"
      using h by (metis fst_conv)
    then show "fst (ReadFinding unmarshal shaOrganizationName b s)
          = fst (ReadFinding unmarshal shaOrganizationName b s')"
      by (auto simp: ReadFinding_def Let_def split: sum.splits prod.splits)
  qed
  from 1 2 3 4 5 6 7 show ?thesis by blast
qed

theorem ReadFinding_errors_and_purity_witness:
  "ReadFinding exampleUnmarshal exampleOrganizationName [] (runAt 7) =
     (Inl (WithMessage ErrUnmarshal ''unexpected end of JSON input''), runAt 7)
   \<and> ReadFinding exampleUnmarshal exampleOrganizationName payloadNoFinding (runAt 7) =
     (Inl ErrValueNotFound, runAt 7)
   \<and> ReadFinding exampleUnmarshal exampleOrganizationName payloadOtherCategory (runAt 7) =
     (Inl ErrValueNotFound, runAt 7)
   \<and> fst (ReadFinding exampleUnmarshal exampleOrganizationName payloadNoParent (runAt 7)) =
     Inl ErrValueNotFound
   \<and> snd (ReadFinding exampleUnmarshal exampleOrganizationName payloadExternalMember (runAt 7)) =
     runAt 7
   \<and> fst (ReadFinding exampleUnmarshal exampleOrganizationName payloadExternalMember (runAt 7)) =
     fst (ReadFinding exampleUnmarshal exampleOrganizationName payloadExternalMember (runAt 8))"
proof -
  note t = exampleUnmarshal_table
  note p = exampleOrganizationName_pure
  have c: "GetCategory (GetFinding \<lparr>Finding = None\<rparr>) \<noteq> ''NON_ORG_IAM_MEMBER''"
    "GetCategory (GetFinding \<lparr>Finding = Some \<lparr>Category = ''PUBLIC_BUCKET_ACL'',
        Parent = ''organizations/123/sources/456''\<rparr>\<rparr>) \<noteq> ''NON_ORG_IAM_MEMBER''"
    by (simp_all add: GetCategory_def GetFinding_def)
  have n: "fst (exampleOrganizationName
        (GetParent (GetFinding \<lparr>Finding = Some \<lparr>Category = ''NON_ORG_IAM_MEMBER'',
           Parent = []\<rparr>\<rparr>)) (world (runAt 7))) = []"
    by (simp add: GetParent_def GetFinding_def exampleOrganizationName_values)
  show ?thesis
    using ReadFinding_errors_and_purity [of exampleUnmarshal "[]"
            "''unexpected end of JSON input''" exampleOrganizationName "runAt 7"
            "\<lparr>Finding = None\<rparr>" "runAt 8"]
          ReadFinding_errors_and_purity [of exampleUnmarshal payloadNoFinding
            "[]" exampleOrganizationName "runAt 7" "\<lparr>Finding = None\<rparr>" "runAt 8"]
          ReadFinding_errors_and_purity [of exampleUnmarshal payloadOtherCategory
            "[]" exampleOrganizationName "runAt 7"
            "\<lparr>Finding = Some \<lparr>Category = ''PUBLIC_BUCKET_ACL'',
                Parent = ''organizations/123/sources/456''\<rparr>\<rparr>" "runAt 8"]
          ReadFinding_errors_and_purity [of exampleUnmarshal payloadNoParent
            "[]" exampleOrganizationName "runAt 7"
            "\<lparr>Finding = Some \<lparr>Category = ''NON_ORG_IAM_MEMBER'', Parent = []\<rparr>\<rparr>" "runAt 8"]
          ReadFinding_errors_and_purity [of exampleUnmarshal payloadExternalMember
            "[]" exampleOrganizationName "runAt 7" "\<lparr>Finding = None\<rparr>" "runAt 8"]
          t c n p
    by simp
qed

text \<open>
  The accepted case, for comparison: the finding of the supported category under
  organization 123 gives the required value with that organization, in any world.
\<close>

lemma ReadFinding_accepts_example:
  "ReadFinding exampleUnmarshal exampleOrganizationName payloadExternalMember (runAt w) =
     (Inr \<lparr>OrganizationName = ''organizations/123''\<rparr>, runAt w)"
  by (simp add: ReadFinding_def exampleUnmarshal_table exampleOrganizationName_values
        GetCategory_def GetFinding_def GetParent_def Let_def runAt_def)

end
